theory Spec2Isabelle
  imports Main "HOL-Library.Char_ord" "HOL-Library.List_Lexorder" "HOL-Library.Sublist"
begin

section \<open>okta-awscli: the command-line driver \<^verbatim>\<open>oktaawscli/okta_awscli.py\<close>\<close>

text \<open>
  The driver authenticates against Okta, lets the user pick an AWS role, asks STS for
  temporary credentials and hands them to the console or to a named AWS profile. It is
  glue around three collaborators (\<^verbatim>\<open>OktaAuthConfig\<close>, \<^verbatim>\<open>OktaAuth\<close>, \<^verbatim>\<open>AwsAuth\<close>) and the
  standard library (\<^verbatim>\<open>input\<close>, \<^verbatim>\<open>print\<close>, \<^verbatim>\<open>open\<close>, \<^verbatim>\<open>LWPCookieJar\<close>, \<^verbatim>\<open>logging\<close>).

  The embedding makes every effect of the driver an \<open>event\<close> of a trace, in program
  order, and every exception a value. What a collaborator returns (or raises) in a run
  is not decided by the driver; it is read from a record \<open>env\<close>, one field per call
  site. Every collaborator call site of the driver is reached at most once in a run,
  so one outcome per call site describes a run completely.
\<close>

subsection \<open>Exceptions\<close>

text \<open>
  The exceptions the driver raises itself or names in an \<^verbatim>\<open>except\<close> clause, and
  \<open>OtherError\<close> for everything else a collaborator may raise. \<open>OSError\<close> stands for
  the class and its subclasses other than \<^verbatim>\<open>LoadError\<close> (\<^verbatim>\<open>FileNotFoundError\<close>,
  \<^verbatim>\<open>PermissionError\<close>, ...); the string is the message.
\<close>

datatype exn =
    LoadError string
  | OSError string
  | ValueError string
  | IndexError
  | KeyError string
  | SystemExit int
  | OtherError string

text \<open>\<^verbatim>\<open>http.cookiejar.LoadError\<close> is declared \<^verbatim>\<open>class LoadError(OSError)\<close>.\<close>

fun is_LoadError :: "exn \<Rightarrow> bool" where
  "is_LoadError (LoadError m) = True"
| "is_LoadError e = False"

fun is_OSError :: "exn \<Rightarrow> bool" where
  "is_OSError (OSError m) = True"
| "is_OSError (LoadError m) = True"
| "is_OSError e = False"

subsection \<open>Events\<close>

datatype level = Debug | Info | Warning

text \<open>
  Arguments of a lazily formatted log call: a string, the cookie jar object (logged
  with \<^verbatim>\<open>%r\<close>) or the exception caught.
\<close>

datatype logarg = Str string | Jar string | Exn exn

text \<open>The \<^verbatim>\<open>--lookup\<close> option: off, on, or a path.\<close>

datatype lookup = LookupFlag bool | LookupPath string

datatype event =
    Print string
  | Log level string "logarg list"
  | Input string
  | Configure
  | GetOktaProfiles
  | NewAwsAuth "string option" string lookup bool
  | CheckStsToken
  | LoadCookies string bool bool
  | SaveCookies string bool bool
  | NewOktaAuthConfig
  | NewOktaAuth string bool "string option" "string option" "string option"
      "string option" "string option"
  | GetAssertion bool
  | ChooseAwsRole string bool
  | WriteRoleToProfile string string
  | DurationFor string
  | GetStsToken string string string int
  | WriteStsToken string string string string
  | WriteFile string string
  | ExecuteAwsArgs "string list"

subsection \<open>Computations: a result or an exception, and the trace so far\<close>

type_synonym 'a io = "(exn + 'a) \<times> event list"

definition return :: "'a \<Rightarrow> 'a io" where
  "return a = (Inr a, [])"

definition raise :: "exn \<Rightarrow> 'a io" where
  "raise e = (Inl e, [])"

definition emit :: "event \<Rightarrow> unit io" where
  "emit ev = (Inr (), [ev])"

text \<open>A call of a collaborator: the call is recorded, then it returns or raises.\<close>

definition call :: "event \<Rightarrow> exn + 'a \<Rightarrow> 'a io" where
  "call ev outcome = (outcome, [ev])"

text \<open>Sequencing: an exception of the first part skips the second.\<close>

definition bind_io :: "'a io \<Rightarrow> ('a \<Rightarrow> 'b io) \<Rightarrow> 'b io" where
  "bind_io m f =
     (case m of
        (Inl e, t) \<Rightarrow> (Inl e, t)
      | (Inr a, t) \<Rightarrow> (case f a of (r, t') \<Rightarrow> (r, t @ t')))"

text \<open>
  \<^verbatim>\<open>try: m  except ...: h\<close>. The handler \<open>h\<close> answers \<open>None\<close> for an exception no
  clause matches, which then propagates.
\<close>

definition try_io :: "'a io \<Rightarrow> (exn \<Rightarrow> 'a io option) \<Rightarrow> 'a io" where
  "try_io m h =
     (case m of
        (Inr a, t) \<Rightarrow> (Inr a, t)
      | (Inl e, t) \<Rightarrow>
          (case h e of
             None \<Rightarrow> (Inl e, t)
           | Some k \<Rightarrow> (case k of (r, t') \<Rightarrow> (r, t @ t'))))"

subsection \<open>Python values used by the driver\<close>

text \<open>Truthiness of an optional string: \<^verbatim>\<open>None\<close> and \<^verbatim>\<open>""\<close> are false.\<close>

fun truthy :: "string option \<Rightarrow> bool" where
  "truthy None = False"
| "truthy (Some s) = (s \<noteq> [])"

text \<open>
  \<^verbatim>\<open>xs[i]\<close> on a list: a negative index counts from the end, and an index outside
  \<^verbatim>\<open>-len(xs) .. len(xs)-1\<close> raises \<^verbatim>\<open>IndexError\<close>.
\<close>

definition py_index :: "'a list \<Rightarrow> int \<Rightarrow> exn + 'a" where
  "py_index xs i =
     (if 0 \<le> i \<and> i < int (length xs) then Inr (xs ! nat i)
      else if - int (length xs) \<le> i \<and> i < 0 then Inr (xs ! nat (int (length xs) + i))
      else Inl IndexError)"

text \<open>\<^verbatim>\<open>d[k]\<close> on a dict with string keys.\<close>

definition py_getitem :: "(string \<rightharpoonup> 'v) \<Rightarrow> string \<Rightarrow> exn + 'v" where
  "py_getitem d k = (case d k of None \<Rightarrow> Inl (KeyError k) | Some v \<Rightarrow> Inr v)"

text \<open>\<^verbatim>\<open>"%d" % n\<close> for a natural number.\<close>

definition digit_char :: "nat \<Rightarrow> char" where
  "digit_char d = char_of (of_char (CHR ''0'') + d)"

function string_of_nat :: "nat \<Rightarrow> string" where
  "string_of_nat n =
     (if n < 10 then [digit_char n] else string_of_nat (n div 10) @ [digit_char (n mod 10)])"
  by pat_completeness auto
termination
  by (relation "measure (\<lambda>n. n)") auto

declare string_of_nat.simps [simp del]

text \<open>\<^verbatim>\<open>"\n".join(lines)\<close>.\<close>

fun join_lines :: "string list \<Rightarrow> string" where
  "join_lines [] = []"
| "join_lines [l] = l"
| "join_lines (l # ls) = l @ [CHR 0x0A] @ join_lines ls"

subsection \<open>The collaborators' outcomes in one run\<close>

record env =
  version_string :: string
    \<comment> \<open>\<^verbatim>\<open>oktaawscli.version.__version__\<close>\<close>
  home :: string
    \<comment> \<open>\<^verbatim>\<open>os.path.expanduser('~')\<close>\<close>
  configure_outcome :: "exn + unit"
    \<comment> \<open>\<^verbatim>\<open>OktaAuthConfig.configure(logger)\<close>\<close>
  okta_profiles_outcome :: "exn + string list"
    \<comment> \<open>\<^verbatim>\<open>OktaAuthConfig.get_okta_profiles()\<close>\<close>
  input_outcome :: "exn + int"
    \<comment> \<open>\<^verbatim>\<open>int(input(prompt))\<close>: \<^verbatim>\<open>ValueError\<close> for a line that is not an integer literal\<close>
  aws_auth_outcome :: "exn + unit"
    \<comment> \<open>\<^verbatim>\<open>AwsAuth(profile, okta_profile, lookup, verbose, logger)\<close>\<close>
  aws_profile_attr :: "string option"
    \<comment> \<open>the attribute \<^verbatim>\<open>aws_auth.profile\<close> when \<^verbatim>\<open>get_credentials\<close> reads it\<close>
  check_sts_token_outcome :: "exn + bool"
    \<comment> \<open>\<^verbatim>\<open>aws_auth.check_sts_token()\<close>\<close>
  cookie_load_outcome :: "exn + unit"
    \<comment> \<open>\<^verbatim>\<open>cookie_jar.load(...)\<close>\<close>
  cookie_save_outcome :: "exn + unit"
    \<comment> \<open>\<^verbatim>\<open>cookie_jar.save(...)\<close>\<close>
  okta_auth_config_outcome :: "exn + unit"
    \<comment> \<open>\<^verbatim>\<open>OktaAuthConfig(logger)\<close>\<close>
  okta_auth_outcome :: "exn + unit"
    \<comment> \<open>\<^verbatim>\<open>OktaAuth(...)\<close>\<close>
  assertion_outcome :: "exn + (string \<times> string)"
    \<comment> \<open>\<^verbatim>\<open>okta.get_assertion(persistent_okta_session)\<close>, a pair\<close>
  choose_role_outcome :: "exn + (string \<times> string)"
    \<comment> \<open>\<^verbatim>\<open>aws_auth.choose_aws_role(assertion, refresh_role)\<close>: principal ARN, role ARN\<close>
  write_role_outcome :: "exn + unit"
    \<comment> \<open>\<^verbatim>\<open>okta_auth_config.write_role_to_profile(okta_profile, role_arn)\<close>\<close>
  duration_outcome :: "exn + int"
    \<comment> \<open>\<^verbatim>\<open>okta_auth_config.duration_for(okta_profile)\<close>\<close>
  sts_token_outcome :: "exn + (string \<rightharpoonup> string)"
    \<comment> \<open>\<^verbatim>\<open>aws_auth.get_sts_token(...)\<close>: the STS response's credentials dict; the
        \<^verbatim>\<open>Expiration\<close> value is carried as the text \<^verbatim>\<open>%s\<close> renders\<close>
  write_sts_token_outcome :: "exn + unit"
    \<comment> \<open>\<^verbatim>\<open>aws_auth.write_sts_token(...)\<close>\<close>
  cache_write_outcome :: "exn + unit"
    \<comment> \<open>\<^verbatim>\<open>open(path, 'w')\<close>, \<^verbatim>\<open>write\<close>, \<^verbatim>\<open>close\<close> of the cache file\<close>
  execute_outcome :: "exn + unit"
    \<comment> \<open>\<^verbatim>\<open>aws_auth.execute_aws_args(awscli_args, logger)\<close>\<close>

subsection \<open>\<^verbatim>\<open>okta_switch\<close>\<close>

text \<open>The loop \<^verbatim>\<open>for index, profile in enumerate(okta_profiles): print(...)\<close>.\<close>

fun print_profiles :: "nat \<Rightarrow> string list \<Rightarrow> unit io" where
  "print_profiles index [] = return ()"
| "print_profiles index (profile # rest) =
     bind_io (emit (Print (string_of_nat (index + 1) @ '': '' @ profile)))
       (\<lambda>_. print_profiles (index + 1) rest)"

definition okta_switch :: "env \<Rightarrow> string io" where
  "okta_switch w =
     bind_io (call GetOktaProfiles (okta_profiles_outcome w)) (\<lambda>got.
     let okta_profiles = sort got in
     bind_io
       (if length okta_profiles = 1 then return 0
        else
          bind_io (emit (Print ''Available Okta profiles:'')) (\<lambda>_.
          bind_io (print_profiles 0 okta_profiles) (\<lambda>_.
          bind_io (call (Input ''Please select Okta profile: '') (input_outcome w)) (\<lambda>answer.
          let okta_profile_selected = answer - 1 in
          bind_io (py_index okta_profiles okta_profile_selected, []) (\<lambda>chosen.
          bind_io (emit (Log Debug (''Selected '' @ chosen) [])) (\<lambda>_.
          return okta_profile_selected))))))
       (\<lambda>okta_profile_selected. (py_index okta_profiles okta_profile_selected, [])))"

subsection \<open>\<^verbatim>\<open>console_output\<close>\<close>

text \<open>The text \<^verbatim>\<open>"\n".join([...])\<close> of lines 72 to 76.\<close>

definition export_lines :: "string \<Rightarrow> string \<Rightarrow> string \<Rightarrow> string" where
  "export_lines access_key_id secret_access_key session_token =
     join_lines
       [''export AWS_ACCESS_KEY_ID='' @ access_key_id,
        ''export AWS_SECRET_ACCESS_KEY='' @ secret_access_key,
        ''export AWS_SESSION_TOKEN='' @ session_token]"

definition console_output :: "string \<Rightarrow> string \<Rightarrow> string \<Rightarrow> bool \<Rightarrow> string io" where
  "console_output access_key_id secret_access_key session_token verbose =
     (let exports = export_lines access_key_id secret_access_key session_token
      in bind_io
           (if verbose then
              bind_io (emit (Print ''Use these to set your environment variables:''))
                (\<lambda>_. emit (Print exports))
            else return ())
           (\<lambda>_. return exports))"

subsection \<open>\<^verbatim>\<open>get_credentials\<close>\<close>

text \<open>
  The parameters \<^verbatim>\<open>profile\<close> and \<^verbatim>\<open>logger\<close> are kept in the order of the source;
  the body does not read \<^verbatim>\<open>profile\<close> (it reads \<^verbatim>\<open>aws_auth.profile\<close>). The logger
  is the trace. \<open>cookie_jar\<close> is the jar's file name, \<open>None\<close> without a jar.
\<close>

definition get_credentials ::
  "env \<Rightarrow> string \<Rightarrow> string option \<Rightarrow> bool \<Rightarrow> string option \<Rightarrow> bool \<Rightarrow> bool \<Rightarrow>
   string option \<Rightarrow> string option \<Rightarrow> string option \<Rightarrow> bool \<Rightarrow> string option \<Rightarrow> unit io" where
  "get_credentials w okta_profile profile verbose totp_token cache refresh_role
       okta_username okta_password cookie_jar persistent_okta_session user_agent =
     bind_io (call NewOktaAuthConfig (okta_auth_config_outcome w)) (\<lambda>_.
     bind_io (call (NewOktaAuth okta_profile verbose totp_token okta_username okta_password
                      cookie_jar user_agent) (okta_auth_outcome w)) (\<lambda>_.
     bind_io (call (GetAssertion persistent_okta_session) (assertion_outcome w))
       (\<lambda>(_, assertion).
     bind_io (call (ChooseAwsRole assertion refresh_role) (choose_role_outcome w))
       (\<lambda>(principal_arn, role_arn).
     bind_io (call (WriteRoleToProfile okta_profile role_arn) (write_role_outcome w)) (\<lambda>_.
     bind_io (call (DurationFor okta_profile) (duration_outcome w)) (\<lambda>duration.
     bind_io (call (GetStsToken role_arn principal_arn assertion duration)
                (sts_token_outcome w)) (\<lambda>sts_token.
     bind_io (py_getitem sts_token ''AccessKeyId'', []) (\<lambda>access_key_id.
     bind_io (py_getitem sts_token ''SecretAccessKey'', []) (\<lambda>secret_access_key.
     bind_io (py_getitem sts_token ''SessionToken'', []) (\<lambda>session_token.
     bind_io (py_getitem sts_token ''Expiration'', []) (\<lambda>session_token_expiry.
     bind_io (emit (Log Info (''Session token expires on: '' @ session_token_expiry) []))
       (\<lambda>_.
     if \<not> truthy (aws_profile_attr w) then
       bind_io (console_output access_key_id secret_access_key session_token verbose)
         (\<lambda>exports.
       if cache then
         call (WriteFile (home w @ ''/.okta-credentials.cache'') exports)
           (cache_write_outcome w)
       else return ())
     else
       call (WriteStsToken access_key_id secret_access_key session_token_expiry
               session_token) (write_sts_token_outcome w)))))))))))))"

subsection \<open>\<^verbatim>\<open>main\<close>\<close>

text \<open>
  The options as \<^verbatim>\<open>click\<close> hands them to \<^verbatim>\<open>main\<close>. The handler levels set from
  \<^verbatim>\<open>verbose\<close> and \<^verbatim>\<open>debug\<close> decide only which log records reach the terminal; the
  trace holds every log call.
\<close>

record cli =
  okta_profile :: "string option"
  profile :: "string option"
  verbose :: bool
  version :: bool
  debug :: bool
  force :: bool
  cache :: bool
  lookup :: lookup
  awscli_args :: "string list"
  refresh_role :: bool
  token :: "string option"
  okta_username :: "string option"
  okta_password :: "string option"
  config :: bool
  switch :: bool
  cookie_jar :: "string option"
  persistent_okta_session :: bool
  user_agent :: "string option"

text \<open>Lines 166 to 174: the jar is loaded, and a failed load is logged and dropped.\<close>

definition load_cookies :: "env \<Rightarrow> string \<Rightarrow> bool \<Rightarrow> unit io" where
  "load_cookies w filename persistent =
     try_io
       (bind_io (call (LoadCookies filename persistent persistent) (cookie_load_outcome w))
          (\<lambda>_. emit (Log Debug ''Loaded cookies from %s: %r'' [Str filename, Jar filename])))
       (\<lambda>e. if is_LoadError e then
               Some (emit (Log Debug ''Error loading cookies from %s: %s'' [Str filename, Exn e]))
             else if is_OSError e then
               Some (emit (Log Debug ''Error loading cookies from %s: %s'' [Str filename, Exn e]))
             else None)"

text \<open>Lines 179 to 184: the jar is saved, and a failed save is a warning.\<close>

definition save_cookies :: "env \<Rightarrow> string \<Rightarrow> bool \<Rightarrow> unit io" where
  "save_cookies w filename persistent =
     try_io
       (bind_io (call (SaveCookies filename persistent persistent) (cookie_save_outcome w))
          (\<lambda>_. emit (Log Debug ''Saved cookies to %s'' [Str filename])))
       (\<lambda>e. if is_OSError e then
               Some (emit (Log Warning ''Failed to save cookies to %s: %s'' [Str filename, Exn e]))
             else None)"

text \<open>Lines 162 to 184: the body of \<^verbatim>\<open>if force or not aws_auth.check_sts_token()\<close>.\<close>

definition renew :: "env \<Rightarrow> cli \<Rightarrow> string \<Rightarrow> unit io" where
  "renew w a okta_profile_name =
     bind_io
       (if force a \<and> truthy (profile a) then
          emit (Log Info
            ''Force option selected,                 getting new credentials anyway.'' [])
        else return ()) (\<lambda>_.
     bind_io
       (case cookie_jar a of
          None \<Rightarrow> return ()
        | Some filename \<Rightarrow> load_cookies w filename (persistent_okta_session a)) (\<lambda>_.
     bind_io
       (get_credentials w okta_profile_name (profile a) (verbose a) (token a) (cache a)
          (refresh_role a) (okta_username a) (okta_password a) (cookie_jar a)
          (persistent_okta_session a) (user_agent a)) (\<lambda>_.
     (case cookie_jar a of
        None \<Rightarrow> return ()
      | Some filename \<Rightarrow> save_cookies w filename (persistent_okta_session a)))))"

text \<open>Lines 186 to 187: the arguments left over go to the AWS command line.\<close>

definition run_awscli :: "env \<Rightarrow> cli \<Rightarrow> unit io" where
  "run_awscli w a =
     (if awscli_args a \<noteq> [] then
        call (ExecuteAwsArgs (awscli_args a)) (execute_outcome w)
      else return ())"

definition main :: "env \<Rightarrow> cli \<Rightarrow> unit io" where
  "main w a =
     (if version a then
        bind_io (emit (Print (version_string w))) (\<lambda>_. raise (SystemExit 0))
      else
        bind_io (if config a then call Configure (configure_outcome w) else return ()) (\<lambda>_.
        bind_io
          (if switch a then okta_switch w
           else return (case okta_profile a of
                          None \<Rightarrow> ''default''
                        | Some name \<Rightarrow> if name = [] then ''default'' else name))
          (\<lambda>okta_profile_name.
        bind_io (call (NewAwsAuth (profile a) okta_profile_name (lookup a) (verbose a))
                   (aws_auth_outcome w)) (\<lambda>_.
        bind_io
          (if force a then return True
           else bind_io (call CheckStsToken (check_sts_token_outcome w))
                  (\<lambda>valid. return (\<not> valid))) (\<lambda>needed.
        bind_io (if needed then renew w a okta_profile_name else return ()) (\<lambda>_.
        run_awscli w a))))))"

subsection \<open>Classes of events\<close>

text \<open>
  The events only the renewal path (lines 162 to 184) can produce: the cookie jar is
  loaded or saved, Okta is asked for an assertion, a role is resolved and recorded, STS
  is asked for a token, and the credentials are written to a profile or to the cache file.
\<close>

fun is_renewal_event :: "event \<Rightarrow> bool" where
  "is_renewal_event (LoadCookies f p q) = True"
| "is_renewal_event (SaveCookies f p q) = True"
| "is_renewal_event NewOktaAuthConfig = True"
| "is_renewal_event (NewOktaAuth n v t u pw cj ua) = True"
| "is_renewal_event (GetAssertion ps) = True"
| "is_renewal_event (ChooseAwsRole s rr) = True"
| "is_renewal_event (WriteRoleToProfile n r) = True"
| "is_renewal_event (DurationFor n) = True"
| "is_renewal_event (GetStsToken r p s d) = True"
| "is_renewal_event (WriteStsToken ak sk ex st) = True"
| "is_renewal_event (WriteFile path content) = True"
| "is_renewal_event ev = False"

text \<open>The events that hand credentials to a destination: console, cache file, profile.\<close>

fun is_delivery :: "event \<Rightarrow> bool" where
  "is_delivery (Print s) = True"
| "is_delivery (WriteFile path content) = True"
| "is_delivery (WriteStsToken ak sk ex st) = True"
| "is_delivery ev = False"

fun is_write_sts_token :: "event \<Rightarrow> bool" where
  "is_write_sts_token (WriteStsToken ak sk ex st) = True"
| "is_write_sts_token ev = False"

subsection \<open>A concrete run\<close>

text \<open>
  Two Okta profiles are configured, the user answers 1, no cached token is valid, every
  collaborator succeeds, and STS answers with a four-field credentials dict.
\<close>

definition demo_env :: env where
  "demo_env =
     \<lparr> version_string = ''0.5.4'', home = ''/home/u'',
       configure_outcome = Inr (), okta_profiles_outcome = Inr [''prod'', ''dev''],
       input_outcome = Inr 1, aws_auth_outcome = Inr (), aws_profile_attr = None,
       check_sts_token_outcome = Inr False,
       cookie_load_outcome = Inr (), cookie_save_outcome = Inr (),
       okta_auth_config_outcome = Inr (), okta_auth_outcome = Inr (),
       assertion_outcome = Inr (''session'', ''saml''),
       choose_role_outcome = Inr (''arn:idp'', ''arn:role/Admin''),
       write_role_outcome = Inr (), duration_outcome = Inr 3600,
       sts_token_outcome = Inr [''AccessKeyId'' \<mapsto> ''AK'', ''SecretAccessKey'' \<mapsto> ''SK'',
                                ''SessionToken'' \<mapsto> ''ST'', ''Expiration'' \<mapsto> ''2026-01-01''],
       write_sts_token_outcome = Inr (), cache_write_outcome = Inr (),
       execute_outcome = Inr () \<rparr>"

definition demo_cli :: cli where
  "demo_cli =
     \<lparr> okta_profile = None, profile = None, verbose = False, version = False,
       debug = False, force = False, cache = False, lookup = LookupFlag False,
       awscli_args = [], refresh_role = False, token = None, okta_username = None,
       okta_password = None, config = False, switch = False, cookie_jar = None,
       persistent_okta_session = False, user_agent = None \<rparr>"

section \<open>Collaborators known from the specification only\<close>

subsection \<open>The role resolver\<close>

text \<open>
  A role binding is a pair of a principal identifier and a role identifier. The answer
  of the user at the prompt is a number or something else.
\<close>

type_synonym role_binding = "string \<times> string"

datatype choice_source = OnlyOption | FromCache | Interactive

datatype answer = NotANumber | Number int

datatype resolve_error = NoRolesAvailable | InvalidSelection

text \<open>
  Modelled from the spec: the bindings of an assertion, which
  \<^verbatim>\<open>AwsAuth.choose_aws_role\<close> (module \<^verbatim>\<open>oktaawscli.aws_auth\<close>, not among the sources)
  extracts. The specification asks for them ``deduplicated and order-stable (sorted by
  role identifier)''.
\<close>

definition role_bindings :: "role_binding list \<Rightarrow> role_binding list" where
  "role_bindings parsed = sort_key snd (remdups parsed)"

text \<open>
  Modelled from the spec: the menu of an interactive selection, ``sorted, enumerated
  1..N''.
\<close>

definition role_menu :: "role_binding list \<Rightarrow> (nat \<times> role_binding) list" where
  "role_menu bs = zip [1..<Suc (length bs)] bs"

text \<open>
  Modelled from the spec: the answer to the menu; ``an out-of-range or non-numeric answer
  is a fatal input error (no silent default)''.
\<close>

definition select_role :: "role_binding list \<Rightarrow> answer \<Rightarrow> resolve_error + role_binding" where
  "select_role bs ans =
     (case ans of
        NotANumber \<Rightarrow> Inl InvalidSelection
      | Number k \<Rightarrow>
          if 1 \<le> k \<and> k \<le> int (length bs) then Inr (bs ! nat (k - 1))
          else Inl InvalidSelection)"

text \<open>
  Modelled from the spec: whether the cached role decides, ``\<^verbatim>\<open>force_refresh\<close> false and
  a cached role exists among them''.
\<close>

definition cached_binding :: "role_binding list \<Rightarrow> string option \<Rightarrow> bool \<Rightarrow> role_binding option" where
  "cached_binding bs cached_role force_refresh =
     (if force_refresh then None
      else case cached_role of
             None \<Rightarrow> None
           | Some role \<Rightarrow> find (\<lambda>b. snd b = role) bs)"

record resolution =
  presented :: "(nat \<times> role_binding) list"
  resolved :: "resolve_error + (role_binding \<times> choice_source)"

text \<open>
  Modelled from the spec: \<^verbatim>\<open>resolve_role(assertion, cached_role, force_refresh)\<close> of
  section 4.2, the policy of \<^verbatim>\<open>AwsAuth.choose_aws_role\<close> (not among the sources): no
  binding is fatal, one binding is taken, the cached role is taken when it may be, and
  otherwise the menu is presented and the answer decides.
\<close>

definition resolve_role ::
  "role_binding list \<Rightarrow> string option \<Rightarrow> bool \<Rightarrow> answer \<Rightarrow> resolution" where
  "resolve_role parsed cached_role force_refresh ans =
     (let bs = role_bindings parsed in
      case bs of
        [] \<Rightarrow> \<lparr>presented = [], resolved = Inl NoRolesAvailable\<rparr>
      | [b] \<Rightarrow> \<lparr>presented = [], resolved = Inr (b, OnlyOption)\<rparr>
      | _ \<Rightarrow>
         (case cached_binding bs cached_role force_refresh of
            Some b \<Rightarrow> \<lparr>presented = [], resolved = Inr (b, FromCache)\<rparr>
          | None \<Rightarrow>
              \<lparr>presented = role_menu bs,
               resolved = (case select_role bs ans of
                             Inl err \<Rightarrow> Inl err
                           | Inr b \<Rightarrow> Inr (b, Interactive))\<rparr>))"

subsection \<open>The validity check of cached credentials\<close>

record credential_profile =
  cp_access_key_id :: string
  cp_secret_access_key :: string
  cp_session_token :: string
  cp_expiration :: int

text \<open>
  Modelled from the spec: the validity check of section 4.3, which
  \<^verbatim>\<open>AwsAuth.check_sts_token\<close> (not among the sources) performs: ``if a CredentialProfile
  record already exists for the target profile, its token is syntactically well-formed,
  and \<^verbatim>\<open>now < expiration - safety_margin\<close>, and \<^verbatim>\<open>force\<close> is false, return it unchanged''.
  Times are seconds; what makes a token well-formed is a parameter.
\<close>

definition cached_credential ::
  "(string \<rightharpoonup> credential_profile) \<Rightarrow> string \<Rightarrow> (string \<Rightarrow> bool) \<Rightarrow> int \<Rightarrow> int \<Rightarrow> bool \<Rightarrow>
   credential_profile option" where
  "cached_credential store profile_name well_formed now safety_margin force_flag =
     (case store profile_name of
        None \<Rightarrow> None
      | Some c \<Rightarrow>
          if well_formed (cp_session_token c) \<and> now < cp_expiration c - safety_margin
             \<and> \<not> force_flag
          then Some c else None)"

section \<open>Properties\<close>

subsection \<open>Results and traces of composed computations\<close>

lemma fst_bind_io:
  "fst (bind_io m f) = (case fst m of Inl e \<Rightarrow> Inl e | Inr a \<Rightarrow> fst (f a))"
  by (cases m) (auto simp: bind_io_def split: sum.splits prod.splits)

lemma snd_bind_io:
  "snd (bind_io m f) = (case fst m of Inl e \<Rightarrow> snd m | Inr a \<Rightarrow> snd m @ snd (f a))"
  by (cases m) (auto simp: bind_io_def split: sum.splits prod.splits)

lemma fst_call [simp]: "fst (call ev out) = out"
  by (simp add: call_def)

lemma snd_call [simp]: "snd (call ev out) = [ev]"
  by (simp add: call_def)

lemma fst_emit [simp]: "fst (emit ev) = Inr ()"
  by (simp add: emit_def)

lemma snd_emit [simp]: "snd (emit ev) = [ev]"
  by (simp add: emit_def)

lemma fst_return [simp]: "fst (return a) = Inr a"
  by (simp add: return_def)

lemma snd_return [simp]: "snd (return a) = []"
  by (simp add: return_def)

lemma fst_raise [simp]: "fst (raise e) = Inl e"
  by (simp add: raise_def)

lemma snd_raise [simp]: "snd (raise e) = []"
  by (simp add: raise_def)

lemmas run_simps = fst_bind_io snd_bind_io case_prod_beta

subsection \<open>The profile switch\<close>

lemma fst_print_profiles: "fst (print_profiles i ps) = Inr ()"
  by (induction ps arbitrary: i) (simp_all add: fst_bind_io)

lemma print_profiles_events:
  "ev \<in> set (snd (print_profiles i ps)) \<Longrightarrow> \<exists>s. ev = Print s"
  by (induction ps arbitrary: i) (auto simp: run_simps)

lemma okta_switch_events:
  "ev \<in> set (snd (okta_switch w)) \<Longrightarrow>
     ev = GetOktaProfiles \<or> (\<exists>s. ev = Print s) \<or> (\<exists>s. ev = Input s) \<or> (\<exists>s. ev = Log Debug s [])"
  by (auto simp: okta_switch_def run_simps Let_def split: sum.splits if_splits
           dest: print_profiles_events)

lemma okta_switch_no_renewal:
  "ev \<in> set (snd (okta_switch w)) \<Longrightarrow> \<not> is_renewal_event ev"
  by (auto dest!: okta_switch_events)

lemma okta_switch_result:
  assumes "okta_profiles_outcome w = Inr got" "length got \<noteq> 1" "input_outcome w = Inr answer"
  shows "fst (okta_switch w) = py_index (sort got) (answer - 1)"
  using assms
  by (simp add: okta_switch_def fst_bind_io fst_print_profiles Let_def split: sum.splits)

subsection \<open>The issuance\<close>

lemma fst_console_output [simp]:
  "fst (console_output ak sk st v) = Inr (export_lines ak sk st)"
  by (simp add: console_output_def Let_def run_simps)

lemma snd_console_output [simp]:
  "snd (console_output ak sk st v) =
     (if v then [Print ''Use these to set your environment variables:'',
                 Print (export_lines ak sk st)] else [])"
  by (simp add: console_output_def Let_def run_simps)

lemma get_credentials_no_jar_events:
  "LoadCookies f p q \<notin> set (snd (get_credentials w n pr v t c rr u pw cj ps ua))"
  "SaveCookies f p q \<notin> set (snd (get_credentials w n pr v t c rr u pw cj ps ua))"
  by (simp_all add: get_credentials_def run_simps split: sum.splits)

lemma hd_get_credentials:
  "\<exists>rest. snd (get_credentials w n pr v t c rr u pw cj ps ua) = NewOktaAuthConfig # rest"
  by (simp add: get_credentials_def run_simps split: sum.splits)

subsection \<open>The cookie jar\<close>

lemma snd_load_cookies:
  "snd (load_cookies w f p) = LoadCookies f p p #
     (case cookie_load_outcome w of
        Inr u \<Rightarrow> [Log Debug ''Loaded cookies from %s: %r'' [Str f, Jar f]]
      | Inl e \<Rightarrow> if is_OSError e
                 then [Log Debug ''Error loading cookies from %s: %s'' [Str f, Exn e]]
                 else [])"
proof (cases "cookie_load_outcome w")
  case (Inl e)
  then show ?thesis
    by (cases e) (simp_all add: load_cookies_def try_io_def bind_io_def call_def emit_def)
next
  case (Inr u)
  then show ?thesis
    by (simp add: load_cookies_def try_io_def bind_io_def call_def emit_def)
qed

lemma fst_load_cookies:
  "fst (load_cookies w f p) =
     (case cookie_load_outcome w of
        Inr u \<Rightarrow> Inr ()
      | Inl e \<Rightarrow> if is_OSError e then Inr () else Inl e)"
proof (cases "cookie_load_outcome w")
  case (Inl e)
  then show ?thesis
    by (cases e) (simp_all add: load_cookies_def try_io_def bind_io_def call_def emit_def)
next
  case (Inr u)
  then show ?thesis
    by (simp add: load_cookies_def try_io_def bind_io_def call_def emit_def)
qed

lemma snd_save_cookies:
  "snd (save_cookies w f p) = SaveCookies f p p #
     (case cookie_save_outcome w of
        Inr u \<Rightarrow> [Log Debug ''Saved cookies to %s'' [Str f]]
      | Inl e \<Rightarrow> if is_OSError e
                 then [Log Warning ''Failed to save cookies to %s: %s'' [Str f, Exn e]]
                 else [])"
proof (cases "cookie_save_outcome w")
  case (Inl e)
  then show ?thesis
    by (cases e) (simp_all add: save_cookies_def try_io_def bind_io_def call_def emit_def)
next
  case (Inr u)
  then show ?thesis
    by (simp add: save_cookies_def try_io_def bind_io_def call_def emit_def)
qed

lemma fst_save_cookies:
  "fst (save_cookies w f p) =
     (case cookie_save_outcome w of
        Inr u \<Rightarrow> Inr ()
      | Inl e \<Rightarrow> if is_OSError e then Inr () else Inl e)"
proof (cases "cookie_save_outcome w")
  case (Inl e)
  then show ?thesis
    by (cases e) (simp_all add: save_cookies_def try_io_def bind_io_def call_def emit_def)
next
  case (Inr u)
  then show ?thesis
    by (simp add: save_cookies_def try_io_def bind_io_def call_def emit_def)
qed

section \<open>The claims\<close>

subsection \<open>Selecting an Okta profile\<close>

text \<open>
  Claim C9, as amended. With more than one configured Okta profile, \<^verbatim>\<open>okta_switch\<close>
  indexes the sorted list with the answer minus one and checks no range: an answer from
  1 to N selects the profile of that number; an answer of 0, or a negative answer whose
  absolute value is less than N, selects a profile counted from the end of the list; any
  other answer (greater than N, or at most minus N) raises \<^verbatim>\<open>IndexError\<close>, which
  \<^verbatim>\<open>main\<close> does not catch.
\<close>

theorem okta_switch_selection:
  assumes "okta_profiles_outcome w = Inr got" and "1 < length got"
    and "input_outcome w = Inr answer"
  shows "fst (okta_switch w) =
           (if 1 \<le> answer \<and> answer \<le> int (length got)
              then Inr (sort got ! nat (answer - 1))
            else if - int (length got) < answer \<and> answer \<le> 0
              then Inr (sort got ! nat (int (length got) + answer - 1))
            else Inl IndexError)
         \<and> (switch a \<and> \<not> version a \<and> \<not> config a
              \<and> (answer \<le> - int (length got) \<or> int (length got) < answer)
            \<longrightarrow> fst (main w a) = Inl IndexError)"
proof -
  have res: "fst (okta_switch w) = py_index (sort got) (answer - 1)"
    using assms by (intro okta_switch_result) auto
  then have sel: "fst (okta_switch w) =
           (if 1 \<le> answer \<and> answer \<le> int (length got)
              then Inr (sort got ! nat (answer - 1))
            else if - int (length got) < answer \<and> answer \<le> 0
              then Inr (sort got ! nat (int (length got) + answer - 1))
            else Inl IndexError)"
    by (auto simp: py_index_def algebra_simps)
  have "fst (main w a) = Inl IndexError"
    if "switch a" "\<not> version a" "\<not> config a"
      "answer \<le> - int (length got) \<or> int (length got) < answer"
  proof -
    from that(4) sel have "fst (okta_switch w) = Inl IndexError"
      by (auto split: if_splits)
    with that(1-3) show ?thesis
      by (simp add: main_def fst_bind_io)
  qed
  with sel show ?thesis by blast
qed

theorem okta_switch_selection_witness:
  "okta_profiles_outcome demo_env = Inr [''prod'', ''dev'']
   \<and> 1 < length [''prod'', ''dev'']
   \<and> input_outcome (demo_env\<lparr>input_outcome := Inr 0\<rparr>) = Inr 0
   \<and> fst (okta_switch (demo_env\<lparr>input_outcome := Inr 0\<rparr>)) = Inr ''prod''"
proof -
  have sorted: "sort [''prod'', ''dev''] = [''dev'', ''prod'']"
    by code_simp
  show ?thesis
    using okta_switch_selection [of "demo_env\<lparr>input_outcome := Inr 0\<rparr>" "[''prod'', ''dev'']" 0 demo_cli]
    by (simp add: demo_env_def sorted)
qed

text \<open>
  Against claim C9 as stated: with two profiles the answer \<open>-2\<close> has an absolute value
  that is at most the number of profiles, and it selects nothing: the index is \<open>-3\<close>,
  outside the list, and the call raises \<^verbatim>\<open>IndexError\<close>.
\<close>

theorem okta_switch_minus_length_counterexample:
  "okta_profiles_outcome (demo_env\<lparr>input_outcome := Inr (- 2)\<rparr>) = Inr [''prod'', ''dev'']
   \<and> input_outcome (demo_env\<lparr>input_outcome := Inr (- 2)\<rparr>) = Inr (- 2)
   \<and> fst (okta_switch (demo_env\<lparr>input_outcome := Inr (- 2)\<rparr>)) = Inl IndexError"
  by code_simp

subsection \<open>Issuing credentials\<close>

text \<open>
  Claim C5. When \<^verbatim>\<open>get_credentials\<close> reaches role resolution and a role is resolved,
  the role ARN is written to the configuration of the Okta profile in use
  (\<^verbatim>\<open>write_role_to_profile(okta_profile, role_arn)\<close>). No hypothesis mentions the
  destination: the write happens for the console and for a named profile alike.
\<close>

theorem role_written_to_profile:
  assumes "ChooseAwsRole s rr \<in> set (snd (get_credentials w n pr v t c r u pw cj ps ua))"
    and "choose_role_outcome w = Inr (principal_arn, role_arn)"
  shows "WriteRoleToProfile n role_arn
           \<in> set (snd (get_credentials w n pr v t c r u pw cj ps ua))"
  using assms
  by (simp add: get_credentials_def run_simps split: sum.splits)

theorem role_written_to_profile_witness:
  "ChooseAwsRole ''saml'' False
     \<in> set (snd (get_credentials demo_env ''default'' None False None False False
                   None None None False None))
   \<and> choose_role_outcome demo_env = Inr (''arn:idp'', ''arn:role/Admin'')
   \<and> WriteRoleToProfile ''default'' ''arn:role/Admin''
     \<in> set (snd (get_credentials demo_env ''default'' None False None False False
                   None None None False None))"
proof -
  have reached: "ChooseAwsRole ''saml'' False
     \<in> set (snd (get_credentials demo_env ''default'' None False None False False
                   None None None False None))"
    by (simp add: get_credentials_def run_simps demo_env_def)
  have role: "choose_role_outcome demo_env = Inr (''arn:idp'', ''arn:role/Admin'')"
    by (simp add: demo_env_def)
  from role_written_to_profile [OF reached role] reached role show ?thesis
    by simp
qed

text \<open>
  Claim C6. In a successful issuance the expiration is the value under the key
  \<^verbatim>\<open>Expiration\<close> of the STS response: it is the one logged, and with a named profile it
  is the one, and the only one, handed to \<^verbatim>\<open>write_sts_token\<close>, together with the three
  other fields of the same response. The driver reads no clock.
\<close>

theorem expiration_from_sts_response:
  assumes "fst (get_credentials w n pr v t c rr u pw cj ps ua) = Inr ()"
    and "sts_token_outcome w = Inr sts_token"
    and "sts_token ''Expiration'' = Some expiration"
  shows "Log Info (''Session token expires on: '' @ expiration) []
           \<in> set (snd (get_credentials w n pr v t c rr u pw cj ps ua))
         \<and> (truthy (aws_profile_attr w) \<longrightarrow>
              (\<exists>ak sk st.
                 sts_token ''AccessKeyId'' = Some ak
                 \<and> sts_token ''SecretAccessKey'' = Some sk
                 \<and> sts_token ''SessionToken'' = Some st
                 \<and> filter is_write_sts_token
                      (snd (get_credentials w n pr v t c rr u pw cj ps ua))
                    = [WriteStsToken ak sk expiration st]))"
  using assms
  by (simp add: get_credentials_def run_simps py_getitem_def
           split: sum.splits if_splits option.splits)

theorem expiration_from_sts_response_witness:
  "fst (get_credentials (demo_env\<lparr>aws_profile_attr := Some ''dev''\<rparr>) ''default''
          (Some ''dev'') False None False False None None None False None) = Inr ()
   \<and> Log Info ''Session token expires on: 2026-01-01'' []
       \<in> set (snd (get_credentials (demo_env\<lparr>aws_profile_attr := Some ''dev''\<rparr>) ''default''
                     (Some ''dev'') False None False False None None None False None))
   \<and> filter is_write_sts_token
       (snd (get_credentials (demo_env\<lparr>aws_profile_attr := Some ''dev''\<rparr>) ''default''
              (Some ''dev'') False None False False None None None False None))
     = [WriteStsToken ''AK'' ''SK'' ''2026-01-01'' ''ST'']"
proof -
  let ?w = "demo_env\<lparr>aws_profile_attr := Some ''dev''\<rparr>"
  let ?tok = "[''AccessKeyId'' \<mapsto> ''AK'', ''SecretAccessKey'' \<mapsto> ''SK'',
               ''SessionToken'' \<mapsto> ''ST'', ''Expiration'' \<mapsto> ''2026-01-01'']"
  have ok: "fst (get_credentials ?w ''default'' (Some ''dev'') False None False False
                   None None None False None) = Inr ()"
    by (simp add: get_credentials_def run_simps py_getitem_def demo_env_def)
  have tok: "sts_token_outcome ?w = Inr ?tok"
    by (simp add: demo_env_def)
  have ex: "?tok ''Expiration'' = Some ''2026-01-01''"
    by simp
  from expiration_from_sts_response [OF ok tok ex] ok show ?thesis
    by (simp add: demo_env_def)
qed

text \<open>
  Claim C10. In \<^verbatim>\<open>get_credentials\<close> the call of \<^verbatim>\<open>write_role_to_profile\<close> comes before
  the call of \<^verbatim>\<open>get_sts_token\<close>: whenever STS is asked, the role has been written. If
  STS then refuses, the run ends there with that exception and the write is not undone.
\<close>

theorem role_written_before_sts:
  assumes "GetStsToken r p s d \<in> set (snd (get_credentials w n pr v t c rr u pw cj ps ua))"
  shows "\<exists>pre post.
           snd (get_credentials w n pr v t c rr u pw cj ps ua)
             = pre @ [GetStsToken r p s d] @ post
           \<and> WriteRoleToProfile n r \<in> set pre
           \<and> (\<forall>e. sts_token_outcome w = Inl e \<longrightarrow>
                 fst (get_credentials w n pr v t c rr u pw cj ps ua) = Inl e \<and> post = [])"
proof -
  let ?pre = "[NewOktaAuthConfig, NewOktaAuth n v t u pw cj ua, GetAssertion ps,
               ChooseAwsRole s rr, WriteRoleToProfile n r, DurationFor n]"
  let ?run = "get_credentials w n pr v t c rr u pw cj ps ua"
  from assms have shape: "snd ?run = ?pre @ [GetStsToken r p s d] @ drop 7 (snd ?run)"
    by (simp add: get_credentials_def run_simps split: sum.splits if_splits)
  from assms have fail:
    "\<forall>e. sts_token_outcome w = Inl e \<longrightarrow> fst ?run = Inl e \<and> drop 7 (snd ?run) = []"
    by (simp add: get_credentials_def run_simps split: sum.splits if_splits)
  have "WriteRoleToProfile n r \<in> set ?pre"
    by simp
  with shape fail show ?thesis
    by blast
qed

theorem role_written_before_sts_witness:
  "GetStsToken ''arn:role/Admin'' ''arn:idp'' ''saml'' 3600
     \<in> set (snd (get_credentials (demo_env\<lparr>sts_token_outcome := Inl (OtherError ''AccessDenied'')\<rparr>)
                   ''default'' None False None False False None None None False None))
   \<and> get_credentials (demo_env\<lparr>sts_token_outcome := Inl (OtherError ''AccessDenied'')\<rparr>)
         ''default'' None False None False False None None None False None
       = (Inl (OtherError ''AccessDenied''),
          [NewOktaAuthConfig, NewOktaAuth ''default'' False None None None None None,
           GetAssertion False, ChooseAwsRole ''saml'' False,
           WriteRoleToProfile ''default'' ''arn:role/Admin'', DurationFor ''default'',
           GetStsToken ''arn:role/Admin'' ''arn:idp'' ''saml'' 3600])"
proof -
  let ?w = "demo_env\<lparr>sts_token_outcome := Inl (OtherError ''AccessDenied'')\<rparr>"
  let ?run = "get_credentials ?w ''default'' None False None False False
                None None None False None"
  have asked: "GetStsToken ''arn:role/Admin'' ''arn:idp'' ''saml'' 3600 \<in> set (snd ?run)"
    by (simp add: get_credentials_def run_simps demo_env_def)
  have run: "?run = (Inl (OtherError ''AccessDenied''),
          [NewOktaAuthConfig, NewOktaAuth ''default'' False None None None None None,
           GetAssertion False, ChooseAwsRole ''saml'' False,
           WriteRoleToProfile ''default'' ''arn:role/Admin'', DurationFor ''default'',
           GetStsToken ''arn:role/Admin'' ''arn:idp'' ''saml'' 3600])"
    by (simp add: prod_eq_iff get_credentials_def run_simps demo_env_def)
  from role_written_before_sts [OF asked] asked run show ?thesis
    by simp
qed

end
